theory Spec2Isabelle
  imports Complex_Main
begin

section \<open>The Moku Go drum controller (Drum.py)\<close>

text \<open>
  Drum.py is a thin controller around a lock-in amplifier: every method of the class
  \<^verbatim>\<open>Moku_Go\<close> issues remote calls to the instrument \<^verbatim>\<open>self.LIA\<close>, sleeps, reads,
  writes to the console and plots. The embedding makes those effects explicit: a
  \<^emph>\<open>world\<close> records, oldest first, every call the program has made, and holds what the
  surroundings answer.

  Numbers. Frequencies, amplitudes and samples are Python floats; they are modelled
  as reals, so the mean of the samples is the exact mean, not its rounding. The
  parameters the docstrings type as \<^verbatim>\<open>uint\<close> (the settle delay, the lowpass corner and
  slope, the gain) are \<^typ>\<open>nat\<close> or \<^typ>\<open>int\<close>; a negative delay, on which
  \<^verbatim>\<open>_time.sleep\<close> raises, is outside that type.
\<close>

subsection \<open>Values, errors and events\<close>

text \<open>
  What a Python variable holding a reading can be: \<^verbatim>\<open>None\<close>, a float, or the float NaN
  (which numpy returns for the mean of no samples).
\<close>

datatype pyval = PyNone | PyFloat real | PyNaN

text \<open>
  The exceptions of the model. \<open>InstrumentError\<close> is whatever \<^verbatim>\<open>LIA.get_data()\<close> raises;
  \<open>PlotError\<close> whatever the plotting library raises on a grid it rejects.
\<close>

datatype error = InstrumentError | KeyError | NameError | ZeroDivisionError | TypeError
  | PlotError

text \<open>
  One constructor for each call the source makes on the instrument, on \<^verbatim>\<open>_time\<close>, on the
  global \<^verbatim>\<open>motor\<close>, on \<^verbatim>\<open>sys.stdout\<close> and on \<^verbatim>\<open>plt\<close>, with the arguments of the call.
  The phase of \<open>SetDemodulation\<close> is \<open>None\<close> when the keyword is not passed.
\<close>

datatype event =
    SetFrontend int string string string
  | SetDemodulation string real "real option"
  | SetAuxOutput real real
  | SetFilter int string
  | SetGain int int
  | SetMonitor int string
  | SetOutputs string string
  | SetPolarMode string
  | GetData
  | Sleep nat
  | RadialGo int
  | AngularGo int
  | WriteCR
  | WriteProgress nat nat real pyval
  | Flush
  | PrintPoint nat nat pyval
  | PltFigure
  | PltPlot "real list" "pyval list"
  | PltContourf "real list" "real list" "pyval list list"
  | PltColorbar string
  | PltScatter "real list" "real list" "pyval list list"
  | PltXlabel string
  | PltYlabel string
  | PltShow

text \<open>The record \<^verbatim>\<open>LIA.get_data()\<close> returns: a dictionary from channel names to samples.\<close>

type_synonym data = "string \<rightharpoonup> real list"

text \<open>
  The world. \<open>trace\<close> is the log of calls. \<open>answers k\<close> is what the instrument answers
  to the \<open>k\<close>-th \<^verbatim>\<open>get_data()\<close> (counted from 0): a record, or an exception; \<open>reads\<close>
  counts the reads made so far. \<open>motor\<close> tells whether the module-level name
  \<^verbatim>\<open>motor\<close> is bound (the file itself never binds it: its only definition is the
  commented-out line 248). \<open>plot_rejects\<close> is the plotting library's verdict on a
  coordinate grid and a matrix of readings.

  The setting calls of the instrument, the sleeps and the moves of a bound motor
  are recorded and return; the reads are the calls the source guards with
  \<^verbatim>\<open>try\<close>, and they may raise.
\<close>

record world =
  trace :: "event list"
  answers :: "nat \<Rightarrow> error + data"
  reads :: nat
  motor :: bool
  plot_rejects :: "real list \<Rightarrow> real list \<Rightarrow> pyval list list \<Rightarrow> bool"

definition call :: "event \<Rightarrow> world \<Rightarrow> world" where
  "call e w = w\<lparr>trace := trace w @ [e]\<rparr>"

text \<open>The SDK method, or library function, behind each event.\<close>

fun rpc_name :: "event \<Rightarrow> string" where
  "rpc_name (SetFrontend _ _ _ _) = ''set_frontend''"
| "rpc_name (SetDemodulation _ _ _) = ''set_demodulation''"
| "rpc_name (SetAuxOutput _ _) = ''set_aux_output''"
| "rpc_name (SetFilter _ _) = ''set_filter''"
| "rpc_name (SetGain _ _) = ''set_gain''"
| "rpc_name (SetMonitor _ _) = ''set_monitor''"
| "rpc_name (SetOutputs _ _) = ''set_outputs''"
| "rpc_name (SetPolarMode _) = ''set_polar_mode''"
| "rpc_name GetData = ''get_data''"
| "rpc_name (Sleep _) = ''sleep''"
| "rpc_name (RadialGo _) = ''_radial_go''"
| "rpc_name (AngularGo _) = ''_angular_go''"
| "rpc_name WriteCR = ''write''"
| "rpc_name (WriteProgress _ _ _ _) = ''write''"
| "rpc_name Flush = ''flush''"
| "rpc_name (PrintPoint _ _ _) = ''print''"
| "rpc_name PltFigure = ''figure''"
| "rpc_name (PltPlot _ _) = ''plot''"
| "rpc_name (PltContourf _ _ _) = ''contourf''"
| "rpc_name (PltColorbar _) = ''colorbar''"
| "rpc_name (PltScatter _ _ _) = ''scatter''"
| "rpc_name (PltXlabel _) = ''xlabel''"
| "rpc_name (PltYlabel _) = ''ylabel''"
| "rpc_name PltShow = ''show''"

text \<open>
  The events of the bench: calls on the instrument, sleeps and motor moves, as
  opposed to console output and plotting.
\<close>

fun on_bench :: "event \<Rightarrow> bool" where
  "on_bench WriteCR = False"
| "on_bench (WriteProgress _ _ _ _) = False"
| "on_bench Flush = False"
| "on_bench (PrintPoint _ _ _) = False"
| "on_bench PltFigure = False"
| "on_bench (PltPlot _ _) = False"
| "on_bench (PltContourf _ _ _) = False"
| "on_bench (PltColorbar _) = False"
| "on_bench (PltScatter _ _ _) = False"
| "on_bench (PltXlabel _) = False"
| "on_bench (PltYlabel _) = False"
| "on_bench PltShow = False"
| "on_bench _ = True"

text \<open>The events a run added to the log: those of \<open>w'\<close> after the ones of \<open>w\<close>.\<close>

definition issued :: "world \<Rightarrow> world \<Rightarrow> event list" where
  "issued w w' = drop (length (trace w)) (trace w')"

text \<open>
  The reference frequency on record: the frequency of the latest
  \<^verbatim>\<open>set_demodulation\<close> in a log, if there is one.
\<close>

fun reference_frequency :: "event list \<Rightarrow> real option" where
  "reference_frequency [] = None"
| "reference_frequency (e # es) =
     (case reference_frequency es of
        Some f \<Rightarrow> Some f
      | None \<Rightarrow> (case e of SetDemodulation _ f _ \<Rightarrow> Some f | _ \<Rightarrow> None))"

subsection \<open>Configuration (lines 33 to 121)\<close>

text \<open>
  \<^verbatim>\<open>configre_lockin(freq, amp, lowpass_corner, lowpass_slope, gain)\<close>, lines 72 to 96.
  The filter's corner frequency is the literal 10 of lines 81 to 84.
\<close>

definition configre_lockin :: "real \<Rightarrow> real \<Rightarrow> int \<Rightarrow> int \<Rightarrow> int \<Rightarrow> world \<Rightarrow> world" where
  "configre_lockin freq amp lowpass_corner lowpass_slope gain w =
     (let w = call (SetFrontend 1 ''AC'' ''1MOhm'' ''0dB'') w;
          w = call (SetDemodulation ''Internal'' freq (Some 0)) w;
          w = call (SetAuxOutput freq amp) w;
          w = (if lowpass_slope = 6 then call (SetFilter 10 ''Slope6dB'') w
               else if lowpass_slope = 12 then call (SetFilter 10 ''Slope12dB'') w
               else if lowpass_slope = 18 then call (SetFilter 10 ''Slope18dB'') w
               else if lowpass_slope = 24 then call (SetFilter 10 ''Slope24dB'') w
               else w);
          w = call (SetGain gain 1) w;
          w = call (SetMonitor 2 ''MainOutput'') w;
          w = call (SetOutputs ''R'' ''Demod'') w
      in call (SetPolarMode ''7.5mVpp'') w)"

text \<open>\<^verbatim>\<open>set_amplitude(amplitude)\<close>, line 108.\<close>

definition set_amplitude :: "real \<Rightarrow> world \<Rightarrow> world" where
  "set_amplitude amplitude w = call (SetAuxOutput 0 amplitude) w"

text \<open>\<^verbatim>\<open>set_frequency(freq, phase=0)\<close>, line 121: \<open>phase\<close> is a parameter the body never reads.\<close>

definition set_frequency :: "real \<Rightarrow> real \<Rightarrow> world \<Rightarrow> world" where
  "set_frequency freq phase w = call (SetDemodulation ''Internal'' freq None) w"

subsection \<open>Reading (lines 123 to 128)\<close>

text \<open>\<^verbatim>\<open>LIA.get_data()\<close>: the call is logged, the read counted, the answer returned or raised.\<close>

definition get_data :: "world \<Rightarrow> (error + data) \<times> world" where
  "get_data w = (answers w (reads w), (call GetData w)\<lparr>reads := Suc (reads w)\<rparr>)"

text \<open>
  \<^verbatim>\<open>numpy.average\<close> without weights: the mean of the samples, and NaN (with a warning,
  no exception) when there are none.
\<close>

definition average :: "real list \<Rightarrow> pyval" where
  "average xs = (if xs = [] then PyNaN else PyFloat (sum_list xs / real (length xs)))"

text \<open>\<^verbatim>\<open>get_output()\<close>, lines 127 and 128; \<^verbatim>\<open>data['ch2']\<close> raises KeyError on a missing key.\<close>

definition get_output :: "world \<Rightarrow> (error + pyval) \<times> world" where
  "get_output w =
     (case get_data w of
        (Inl e, w') \<Rightarrow> (Inl e, w')
      | (Inr d, w') \<Rightarrow>
          (case d ''ch2'' of
             None \<Rightarrow> (Inl KeyError, w')
           | Some samples \<Rightarrow> (Inr (average samples), w')))"

subsection \<open>The frequency sweep (lines 155 to 187)\<close>

text \<open>
  The argument tuple of line 178 and its formatting. \<^verbatim>\<open>'='*int(25*i/n)\<close> is evaluated
  first and divides by \<open>n\<close>; \<^verbatim>\<open>%f\<close> then needs a number. On natural numbers
  \<^verbatim>\<open>int(25*i/n)\<close> is the quotient \<open>25 * i div n\<close>.
\<close>

definition progress_line :: "nat \<Rightarrow> nat \<Rightarrow> real \<Rightarrow> pyval \<Rightarrow> error + event" where
  "progress_line i n f val =
     (if n = 0 then Inl ZeroDivisionError
      else if val = PyNone then Inl TypeError
      else Inr (WriteProgress (25 * i div n) (100 * i div n) f val))"

text \<open>
  The body of the loop of line 161, for the frequencies still to visit; \<open>i\<close> is the
  index \<^verbatim>\<open>enumerate\<close> gives the first of them.
\<close>

fun scan_loop :: "nat \<Rightarrow> nat \<Rightarrow> nat \<Rightarrow> real list \<Rightarrow> pyval list \<Rightarrow> world
    \<Rightarrow> (error + pyval list) \<times> world" where
  "scan_loop delay n i [] amplitudes w = (Inr amplitudes, w)"
| "scan_loop delay n i (f # fs) amplitudes w =
     (let w = set_frequency f 0 w;
          w = call (Sleep delay) w;
          got = get_output w;
          val = (case fst got of Inl e \<Rightarrow> PyFloat 0 | Inr v \<Rightarrow> v);
          w = snd got;
          amplitudes = (if val \<noteq> PyNone then amplitudes @ [val] else amplitudes @ [PyFloat 0]);
          w = call WriteCR w
      in case progress_line i n f val of
           Inl e \<Rightarrow> (Inl e, w)
         | Inr line \<Rightarrow> scan_loop delay n (Suc i) fs amplitudes (call Flush (call line w)))"

text \<open>\<^verbatim>\<open>scan(freqs, delay=1, plot=True)\<close>.\<close>

definition scan :: "real list \<Rightarrow> nat \<Rightarrow> bool \<Rightarrow> world \<Rightarrow> (error + pyval list) \<times> world" where
  "scan freqs delay plot w =
     (case scan_loop delay (length freqs) 0 freqs [] w of
        (Inl e, w') \<Rightarrow> (Inl e, w')
      | (Inr amplitudes, w') \<Rightarrow>
          (Inr amplitudes,
           if plot then call PltShow (call (PltPlot freqs amplitudes) (call PltFigure w'))
           else w'))"

subsection \<open>The spatial sweep (lines 206 to 237)\<close>

text \<open>
  A call on the global \<^verbatim>\<open>motor\<close>: NameError when the name is not bound.
\<close>

definition motor_call :: "event \<Rightarrow> world \<Rightarrow> (error + unit) \<times> world" where
  "motor_call e w = (if motor w then (Inr (), call e w) else (Inl NameError, w))"

text \<open>The loop of line 212, for the radial steps \<open>j\<close> still to make at angle index \<open>i\<close>.\<close>

fun radial_loop :: "nat \<Rightarrow> nat list \<Rightarrow> pyval list \<Rightarrow> world \<Rightarrow> (error + pyval list) \<times> world" where
  "radial_loop i [] rad w = (Inr rad, w)"
| "radial_loop i (j # js) rad w =
     (case motor_call (RadialGo 700) w of
        (Inl e, w) \<Rightarrow> (Inl e, w)
      | (Inr _, w) \<Rightarrow>
          (case get_output (call (Sleep 3) w) of
             (Inl e, w) \<Rightarrow> (Inl e, w)
           | (Inr val, w) \<Rightarrow>
               if val = PyNone then (Inl TypeError, w)
               else radial_loop i js (rad @ [val])
                      (call (PrintPoint (i * 10) ((j + 1) * 700) val) w)))"

text \<open>The loop of line 207, for the angle indices still to visit.\<close>

fun angular_loop :: "nat list \<Rightarrow> pyval list list \<Rightarrow> world
    \<Rightarrow> (error + pyval list list) \<times> world" where
  "angular_loop [] acc w = (Inr acc, w)"
| "angular_loop (i # is) acc w =
     (case get_output w of
        (Inl e, w) \<Rightarrow> (Inl e, w)
      | (Inr val, w) \<Rightarrow>
          (case radial_loop i [0..<10] [val] w of
             (Inl e, w) \<Rightarrow> (Inl e, w)
           | (Inr rad, w) \<Rightarrow>
               (case motor_call (RadialGo (- 7250)) w of
                  (Inl e, w) \<Rightarrow> (Inl e, w)
                | (Inr _, w) \<Rightarrow>
                    (case motor_call (RadialGo 250) w of
                       (Inl e, w) \<Rightarrow> (Inl e, w)
                     | (Inr _, w) \<Rightarrow>
                         (case motor_call (AngularGo 40) w of
                            (Inl e, w) \<Rightarrow> (Inl e, w)
                          | (Inr _, w) \<Rightarrow>
                              angular_loop is (acc @ [rad]) (call (Sleep 2) w))))))"

text \<open>
  \<^verbatim>\<open>spatial_scan(r, theta)\<close>. The grid of line 226 is built from \<open>r\<close> and \<open>theta\<close>; the
  plotting calls of lines 232 and 234 raise when the library rejects it.
\<close>

definition spatial_scan :: "real list \<Rightarrow> real list \<Rightarrow> world \<Rightarrow> (error + unit) \<times> world" where
  "spatial_scan r theta w =
     (case angular_loop [0..<18] [] w of
        (Inl e, w) \<Rightarrow> (Inl e, w)
      | (Inr grid, w) \<Rightarrow>
          (let w = call PltFigure w in
           if plot_rejects w r theta grid then (Inl PlotError, w)
           else
             (let w = call (PltContourf r theta grid) w;
                  w = call (PltColorbar ''Values'') w;
                  w = call (PltScatter r theta grid) w;
                  w = call (PltXlabel ''X'') w;
                  w = call (PltYlabel ''Y'') w
              in (Inr (), call PltShow w))))"


subsection \<open>Closed forms used in the proofs\<close>

text \<open>
  What line 170 to 174 store for an answer of the instrument: the mean of channel 2,
  and 0 when the read or the lookup raised.
\<close>

definition stored :: "error + data \<Rightarrow> pyval" where
  "stored a = (case a of Inl e \<Rightarrow> PyFloat 0
     | Inr d \<Rightarrow> (case d ''ch2'' of None \<Rightarrow> PyFloat 0 | Some samples \<Rightarrow> average samples))"

text \<open>The six events of one pass through the loop of line 161, in order.\<close>

definition sweep_events :: "nat \<Rightarrow> nat \<Rightarrow> nat \<Rightarrow> real \<Rightarrow> pyval \<Rightarrow> event list" where
  "sweep_events delay n i f val =
     [SetDemodulation ''Internal'' f None, Sleep delay, GetData, WriteCR,
      WriteProgress (25 * i div n) (100 * i div n) f val, Flush]"

text \<open>The values the next \<open>n\<close> reads store.\<close>

definition sweep_readings :: "world \<Rightarrow> nat \<Rightarrow> pyval list" where
  "sweep_readings w n = map (\<lambda>k. stored (answers w (reads w + k))) [0..<n]"

text \<open>The bench events of one angular pass of the loop of line 207, when nothing raises.\<close>

definition pass_bench :: "event list" where
  "pass_bench = GetData # concat (replicate 10 [RadialGo 700, Sleep 3, GetData]) @
     [RadialGo (- 7250), RadialGo 250, AngularGo 40, Sleep 2]"

subsection \<open>Instruments for the examples\<close>

text \<open>
  An instrument that answers every read with the same record, a bound motor and a
  plotting library that accepts every grid.
\<close>

definition steady :: world where
  "steady = \<lparr>trace = [],
     answers = (\<lambda>k. Inr [''ch1'' \<mapsto> [0, 0, 0], ''ch2'' \<mapsto> [1, 2, 3]]),
     reads = 0, motor = True,
     plot_rejects = (\<lambda>r theta grid. False)\<rparr>"

text \<open>The same, except that the read number 1 (the second one) raises.\<close>

definition flaky :: world where
  "flaky = steady\<lparr>answers := (\<lambda>k. if k = 1 then Inl InstrumentError else answers steady k)\<rparr>"

text \<open>
  The steady instrument under the module as it is shipped: nothing binds \<^verbatim>\<open>motor\<close>.
\<close>

definition as_shipped :: world where
  "as_shipped = steady\<lparr>motor := False\<rparr>"

section \<open>Properties\<close>

subsection \<open>Reading and sweeping\<close>

lemma average_not_None: "average xs \<noteq> PyNone"
  by (simp add: average_def)

lemma stored_not_None: "stored a \<noteq> PyNone"
  by (simp add: stored_def average_not_None split: sum.split option.split)

lemma get_output_world: "snd (get_output w) = (call GetData w)\<lparr>reads := Suc (reads w)\<rparr>"
  by (simp add: get_output_def get_data_def split: sum.split option.split)

lemma get_output_stored:
  "(case fst (get_output w) of Inl e \<Rightarrow> PyFloat 0 | Inr v \<Rightarrow> v) = stored (answers w (reads w))"
  by (simp add: get_output_def get_data_def stored_def split: sum.split option.split)

lemma scan_step:
  assumes "n \<noteq> 0"
  shows "scan_loop delay n i (f # fs) amps w =
     scan_loop delay n (Suc i) fs (amps @ [stored (answers w (reads w))])
       (w\<lparr>reads := Suc (reads w),
          trace := trace w @ sweep_events delay n i f (stored (answers w (reads w)))\<rparr>)"
proof -
  let ?w = "call (Sleep delay) (set_frequency f 0 w)"
  have a: "answers ?w = answers w" and r: "reads ?w = reads w"
    by (simp_all add: call_def set_frequency_def)
  have v: "(case fst (get_output ?w) of Inl e \<Rightarrow> PyFloat 0 | Inr v \<Rightarrow> v) = stored (answers w (reads w))"
    using get_output_stored [of ?w] by (simp add: a r)
  show ?thesis
    using assms
    apply (simp only: scan_loop.simps Let_def v get_output_world)
    apply (simp add: progress_line_def stored_not_None sweep_events_def call_def
        set_frequency_def)
    done
qed

lemma scan_loop_run:
  "n \<noteq> 0 \<or> fs = [] \<Longrightarrow>
   scan_loop delay n i fs amps w =
     (Inr (amps @ map (\<lambda>k. stored (answers w (reads w + k))) [0..<length fs]),
      w\<lparr>reads := reads w + length fs,
        trace := trace w @ concat (map (\<lambda>k. sweep_events delay n (i + k) (fs ! k)
                   (stored (answers w (reads w + k)))) [0..<length fs])\<rparr>)"
proof (induction fs arbitrary: i amps w)
  case Nil
  then show ?case by simp
next
  case (Cons f fs)
  then have n: "n \<noteq> 0" by simp
  show ?case
    unfolding scan_step [OF n]
    by (subst Cons.IH) (simp_all add: n map_upt_Suc del: upt_Suc scan_loop.simps)
qed

lemma issued_append [simp]: "issued w (w\<lparr>reads := r, trace := trace w @ es\<rparr>) = es"
  by (simp add: issued_def)

lemma scan_run:
  "scan freqs delay plot w =
     (Inr (sweep_readings w (length freqs)),
      w\<lparr>reads := reads w + length freqs,
        trace := trace w @
          concat (map (\<lambda>k. sweep_events delay (length freqs) k (freqs ! k)
                   (stored (answers w (reads w + k)))) [0..<length freqs]) @
          (if plot then [PltFigure, PltPlot freqs (sweep_readings w (length freqs)), PltShow]
           else [])\<rparr>)"
proof -
  have "length freqs \<noteq> 0 \<or> freqs = []" by simp
  from scan_loop_run [OF this, of delay 0 "[]" w]
  show ?thesis by (simp add: scan_def sweep_readings_def call_def)
qed

lemma bench_sweep_events:
  "filter on_bench (sweep_events delay n i f val) =
     [SetDemodulation ''Internal'' f None, Sleep delay, GetData]"
  by (simp add: sweep_events_def)

lemma map_over_indices: "map (\<lambda>k. g (xs ! k)) [0..<length xs] = map g xs"
  by (rule nth_equalityI) simp_all

lemma bench_scan:
  "filter on_bench (issued w (snd (scan freqs delay plot w))) =
     concat (map (\<lambda>f. [SetDemodulation ''Internal'' f None, Sleep delay, GetData]) freqs)"
  by (simp add: scan_run filter_concat comp_def bench_sweep_events
      map_over_indices [of "\<lambda>f. [SetDemodulation ''Internal'' f None, Sleep delay, GetData]"])

lemma drop_triples:
  "drop (3 * m) (concat (map (\<lambda>x. [a x, b x, c x]) xs)) =
     concat (map (\<lambda>x. [a x, b x, c x]) (drop m xs))"
proof (induction xs arbitrary: m)
  case Nil
  then show ?case by simp
next
  case (Cons x xs)
  then show ?case by (cases m) (simp_all add: numeral_3_eq_3)
qed

text \<open>
  Claim C1. For every sequence of frequencies, every delay and every world, \<open>scan\<close>
  returns (it raises nothing) one value for each frequency: the \<open>i\<close>-th is what the
  \<open>i\<close>-th read of the sweep gave (the mean of channel 2, or 0 where the read or the
  lookup raised). On the bench it does, for each frequency in the order given, a
  \<^verbatim>\<open>set_demodulation\<close> to that frequency, then a sleep of \<open>delay\<close>, then a read, and
  nothing else: as many set-frequency calls, sleeps and reads as there are
  frequencies.
\<close>

theorem scan_sweeps_in_order:
  "fst (scan freqs delay plot w) =
     Inr (map (\<lambda>i. case answers w (reads w + i) of
                       Inl e \<Rightarrow> PyFloat 0
                     | Inr d \<Rightarrow> (case d ''ch2'' of
                                  None \<Rightarrow> PyFloat 0
                                | Some samples \<Rightarrow> average samples))
            [0..<length freqs]) \<and>
   filter on_bench (issued w (snd (scan freqs delay plot w))) =
     concat (map (\<lambda>f. [SetDemodulation ''Internal'' f None, Sleep delay, GetData]) freqs) \<and>
   [e \<leftarrow> issued w (snd (scan freqs delay plot w)). rpc_name e = ''set_demodulation''] =
     map (\<lambda>f. SetDemodulation ''Internal'' f None) freqs \<and>
   [e \<leftarrow> issued w (snd (scan freqs delay plot w)). rpc_name e = ''sleep''] =
     replicate (length freqs) (Sleep delay) \<and>
   reads (snd (scan freqs delay plot w)) = reads w + length freqs"
proof -
  have 1: "fst (scan freqs delay plot w) = Inr (sweep_readings w (length freqs))"
    by (simp add: scan_run)
  have 3: "[e \<leftarrow> issued w (snd (scan freqs delay plot w)). rpc_name e = ''set_demodulation''] =
     map (\<lambda>f. SetDemodulation ''Internal'' f None) freqs"
    by (simp add: scan_run filter_concat comp_def sweep_events_def
        map_over_indices [of "\<lambda>f. SetDemodulation ''Internal'' f None"])
  have 4: "[e \<leftarrow> issued w (snd (scan freqs delay plot w)). rpc_name e = ''sleep''] =
     replicate (length freqs) (Sleep delay)"
    by (simp add: scan_run filter_concat comp_def sweep_events_def map_replicate_const)
  have 5: "reads (snd (scan freqs delay plot w)) = reads w + length freqs"
    by (simp add: scan_run)
  show ?thesis
    using 1 3 4 5 bench_scan [of w freqs delay plot]
    by (simp add: sweep_readings_def stored_def)
qed

text \<open>The sweep of two frequencies on the steady instrument: both readings are the mean 2.\<close>

theorem scan_sweeps_in_order_witness:
  "fst (scan [100, 200] 1 False steady) = Inr [PyFloat 2, PyFloat 2] \<and>
   filter on_bench (issued steady (snd (scan [100, 200] 1 False steady))) =
     [SetDemodulation ''Internal'' 100 None, Sleep 1, GetData,
      SetDemodulation ''Internal'' 200 None, Sleep 1, GetData]"
  using scan_sweeps_in_order [of "[100, 200]" 1 False steady]
  by (simp add: steady_def average_def upt_rec)

text \<open>
  Claim C2. When the instrument raises on the read of pass \<open>k\<close>, \<open>scan\<close> still returns
  a value for every frequency, the one at index \<open>k\<close> is 0, and after the three bench
  events of each of the passes 0 to \<open>k\<close> come those of every remaining frequency:
  pass \<open>k + 1\<close> and all later ones run, and nothing is raised to the caller.
\<close>

theorem scan_masks_failed_read:
  assumes "k < length freqs" and "answers w (reads w + k) = Inl e"
  shows "(\<exists>amplitudes. fst (scan freqs delay plot w) = Inr amplitudes \<and>
           length amplitudes = length freqs \<and> amplitudes ! k = PyFloat 0) \<and>
         drop (3 * Suc k) (filter on_bench (issued w (snd (scan freqs delay plot w)))) =
           concat (map (\<lambda>f. [SetDemodulation ''Internal'' f None, Sleep delay, GetData])
             (drop (Suc k) freqs)) \<and>
         reads (snd (scan freqs delay plot w)) = reads w + length freqs"
proof -
  have "sweep_readings w (length freqs) ! k = PyFloat 0"
    using assms by (simp add: sweep_readings_def stored_def)
  then have 1: "\<exists>amplitudes. fst (scan freqs delay plot w) = Inr amplitudes \<and>
           length amplitudes = length freqs \<and> amplitudes ! k = PyFloat 0"
    by (simp add: scan_run sweep_readings_def)
  have 2: "drop (3 * Suc k) (filter on_bench (issued w (snd (scan freqs delay plot w)))) =
           concat (map (\<lambda>f. [SetDemodulation ''Internal'' f None, Sleep delay, GetData])
             (drop (Suc k) freqs))"
    unfolding bench_scan by (rule drop_triples)
  have 3: "reads (snd (scan freqs delay plot w)) = reads w + length freqs"
    by (simp add: scan_run)
  from 1 2 3 show ?thesis by blast
qed

text \<open>Three frequencies on the instrument whose second read fails.\<close>

theorem scan_masks_failed_read_witness:
  "1 < length [100, 200, 300 :: real] \<and>
   answers flaky (reads flaky + 1) = Inl InstrumentError \<and>
   (\<exists>amplitudes. fst (scan [100, 200, 300] 1 False flaky) = Inr amplitudes \<and>
      length amplitudes = length [100, 200, 300 :: real] \<and> amplitudes ! 1 = PyFloat 0) \<and>
   drop 6 (filter on_bench (issued flaky (snd (scan [100, 200, 300] 1 False flaky)))) =
     [SetDemodulation ''Internal'' 300 None, Sleep 1, GetData]"
  using scan_masks_failed_read [of 1 "[100, 200, 300]" flaky InstrumentError 1 False]
  by (simp add: flaky_def steady_def)

lemma issued_self [simp]: "issued w w = []"
  by (simp add: issued_def)

lemma issued_call [simp]: "issued w (call e w) = [e]"
  by (simp add: issued_def call_def)

text \<open>
  Claim C10. On no frequencies \<open>scan\<close> returns the empty sequence and raises nothing;
  it makes no call on the instrument, no sleep and no read (only the plot, when
  asked). The progress line would raise ZeroDivisionError for \<open>n = 0\<close>, but it is
  computed inside the loop only.
\<close>

theorem scan_of_nothing:
  "fst (scan [] delay plot w) = Inr [] \<and>
   issued w (snd (scan [] delay plot w)) =
     (if plot then [PltFigure, PltPlot [] [], PltShow] else []) \<and>
   filter on_bench (issued w (snd (scan [] delay plot w))) = [] \<and>
   reads (snd (scan [] delay plot w)) = reads w \<and>
   progress_line i 0 f val = Inl ZeroDivisionError"
  by (simp add: scan_def call_def issued_def progress_line_def)

subsection \<open>Configuration\<close>

lemma configre_lockin_issued:
  "issued w (configre_lockin freq amp lowpass_corner lowpass_slope gain w) =
     [SetFrontend 1 ''AC'' ''1MOhm'' ''0dB'', SetDemodulation ''Internal'' freq (Some 0),
      SetAuxOutput freq amp] @
     (if lowpass_slope = 6 then [SetFilter 10 ''Slope6dB'']
      else if lowpass_slope = 12 then [SetFilter 10 ''Slope12dB'']
      else if lowpass_slope = 18 then [SetFilter 10 ''Slope18dB'']
      else if lowpass_slope = 24 then [SetFilter 10 ''Slope24dB'']
      else []) @
     [SetGain gain 1, SetMonitor 2 ''MainOutput'', SetOutputs ''R'' ''Demod'',
      SetPolarMode ''7.5mVpp'']"
  by (simp add: configre_lockin_def call_def issued_def)

text \<open>
  Claim C3. Among the calls of \<open>configre_lockin\<close> there is exactly one \<^verbatim>\<open>set_filter\<close>
  when the slope is 6, 12, 18 or 24, with corner frequency 10 and the slope's
  identifier, and none for any other slope; the seven other calls are issued in
  both cases.
\<close>

theorem configre_lockin_filter:
  "[e \<leftarrow> issued w (configre_lockin freq amp lowpass_corner lowpass_slope gain w).
      rpc_name e = ''set_filter''] =
     (if lowpass_slope = 6 then [SetFilter 10 ''Slope6dB'']
      else if lowpass_slope = 12 then [SetFilter 10 ''Slope12dB'']
      else if lowpass_slope = 18 then [SetFilter 10 ''Slope18dB'']
      else if lowpass_slope = 24 then [SetFilter 10 ''Slope24dB'']
      else []) \<and>
   [e \<leftarrow> issued w (configre_lockin freq amp lowpass_corner lowpass_slope gain w).
      rpc_name e \<noteq> ''set_filter''] =
     [SetFrontend 1 ''AC'' ''1MOhm'' ''0dB'', SetDemodulation ''Internal'' freq (Some 0),
      SetAuxOutput freq amp, SetGain gain 1, SetMonitor 2 ''MainOutput'',
      SetOutputs ''R'' ''Demod'', SetPolarMode ''7.5mVpp'']"
  by (simp add: configre_lockin_issued)

text \<open>The default slope 12, and the slope 7 that no branch matches.\<close>

theorem configre_lockin_filter_witness:
  "[e \<leftarrow> issued steady (configre_lockin 320 (1 / 10) 10 12 40 steady).
      rpc_name e = ''set_filter''] = [SetFilter 10 ''Slope12dB''] \<and>
   [e \<leftarrow> issued steady (configre_lockin 320 (1 / 10) 10 7 40 steady).
      rpc_name e = ''set_filter''] = [] \<and>
   [e \<leftarrow> issued steady (configre_lockin 320 (1 / 10) 10 7 40 steady).
      rpc_name e \<noteq> ''set_filter''] =
     [SetFrontend 1 ''AC'' ''1MOhm'' ''0dB'', SetDemodulation ''Internal'' 320 (Some 0),
      SetAuxOutput 320 (1 / 10), SetGain 40 1, SetMonitor 2 ''MainOutput'',
      SetOutputs ''R'' ''Demod'', SetPolarMode ''7.5mVpp'']"
  using configre_lockin_filter [of steady 320 "1 / 10" 10 12 40]
    configre_lockin_filter [of steady 320 "1 / 10" 10 7 40]
  by simp

text \<open>
  Claim C5. The docstring gives \<open>lowpass_corner\<close> as the corner frequency of the
  filter, but lines 81 to 84 send the literal 10: asked for a corner of 20, the
  instrument still receives 10.
\<close>

theorem configre_lockin_corner_not_sent:
  "[e \<leftarrow> issued steady (configre_lockin 320 (1 / 10) 20 12 40 steady).
      rpc_name e = ''set_filter''] = [SetFilter 10 ''Slope12dB''] \<and>
   SetFilter 20 ''Slope12dB'' \<notin> set (issued steady (configre_lockin 320 (1 / 10) 20 12 40 steady))"
  by (simp add: configre_lockin_issued)

text \<open>
  Claim C7. With a slope among 6, 12, 18 and 24, \<open>configre_lockin\<close> issues eight calls
  in this order: frontend, demodulation, auxiliary output, filter, gain, monitor,
  outputs, polar mode.
\<close>

theorem configre_lockin_order:
  assumes "lowpass_slope \<in> {6, 12, 18, 24}"
  shows "map rpc_name (issued w (configre_lockin freq amp lowpass_corner lowpass_slope gain w)) =
     [''set_frontend'', ''set_demodulation'', ''set_aux_output'', ''set_filter'',
      ''set_gain'', ''set_monitor'', ''set_outputs'', ''set_polar_mode'']"
  using assms by (auto simp add: configre_lockin_issued)

text \<open>The default configuration.\<close>

theorem configre_lockin_order_witness:
  "(12 :: int) \<in> {6, 12, 18, 24} \<and>
   map rpc_name (issued steady (configre_lockin 320 (1 / 10) 10 12 40 steady)) =
     [''set_frontend'', ''set_demodulation'', ''set_aux_output'', ''set_filter'',
      ''set_gain'', ''set_monitor'', ''set_outputs'', ''set_polar_mode'']"
  using configre_lockin_order [of 12 steady 320 "1 / 10" 10 40] by simp

lemma reference_frequency_snoc:
  "reference_frequency (es @ [e]) =
     (case e of SetDemodulation m f p \<Rightarrow> Some f | _ \<Rightarrow> reference_frequency es)"
  by (induction es) (simp_all split: event.split option.split)

text \<open>The corner frequency never reaches the instrument, whatever the other arguments.\<close>

lemma configre_lockin_any_corner:
  "configre_lockin freq amp corner1 lowpass_slope gain w =
   configre_lockin freq amp corner2 lowpass_slope gain w"
  by (simp add: configre_lockin_def)

text \<open>
  Claim C6. \<open>set_amplitude a\<close> issues one call, \<^verbatim>\<open>set_aux_output\<close> with frequency
  argument 0 and amplitude \<open>a\<close>; it issues no \<^verbatim>\<open>set_demodulation\<close>, so the reference
  frequency on record is the one before the call.
\<close>

theorem set_amplitude_keeps_frequency:
  "issued w (set_amplitude a w) = [SetAuxOutput 0 a] \<and>
   [e \<leftarrow> issued w (set_amplitude a w). rpc_name e = ''set_demodulation''] = [] \<and>
   reference_frequency (trace (set_amplitude a w)) = reference_frequency (trace w) \<and>
   reads (set_amplitude a w) = reads w"
  by (simp add: set_amplitude_def reference_frequency_snoc) (simp add: call_def reference_frequency_snoc)

text \<open>
  Claim C9. \<open>set_frequency\<close> does the same for any two phases: it issues
  \<^verbatim>\<open>set_demodulation('Internal', frequency=freq)\<close>, without a phase.
\<close>

theorem set_frequency_ignores_phase:
  "set_frequency freq p1 w = set_frequency freq p2 w \<and>
   issued w (set_frequency freq p1 w) = [SetDemodulation ''Internal'' freq None]"
  by (simp add: set_frequency_def)

subsection \<open>The mean of channel 2\<close>

text \<open>
  Claim C8. When the instrument answers with a record whose channel 2 holds samples,
  \<open>get_output\<close> makes that one read and returns the arithmetic mean of all the samples
  of channel 2: the sum of all of them over their number.
\<close>

theorem get_output_is_mean:
  assumes "answers w (reads w) = Inr d" and "d ''ch2'' = Some samples" and "samples \<noteq> []"
  shows "fst (get_output w) = Inr (PyFloat (sum_list samples / real (length samples))) \<and>
         issued w (snd (get_output w)) = [GetData]"
  using assms by (simp add: get_output_def get_data_def average_def issued_def call_def)

text \<open>The steady instrument: the mean of 1, 2 and 3.\<close>

theorem get_output_is_mean_witness:
  "answers steady (reads steady) = Inr [''ch1'' \<mapsto> [0, 0, 0], ''ch2'' \<mapsto> [1, 2, 3]] \<and>
   [''ch1'' \<mapsto> [0, 0, 0], ''ch2'' \<mapsto> [1, 2, 3 :: real]] ''ch2'' = Some [1, 2, 3] \<and>
   [1, 2, 3 :: real] \<noteq> [] \<and>
   fst (get_output steady) = Inr (PyFloat 2) \<and>
   issued steady (snd (get_output steady)) = [GetData]"
  using get_output_is_mean [of steady "[''ch1'' \<mapsto> [0, 0, 0], ''ch2'' \<mapsto> [1, 2, 3]]" "[1, 2, 3]"]
  by (simp add: steady_def)

text \<open>
  The records the theorem leaves out: without channel 2 the lookup raises KeyError,
  and with no samples in it the mean is NaN.
\<close>

lemma get_output_without_samples:
  "answers w (reads w) = Inr d \<Longrightarrow> d ''ch2'' = None \<Longrightarrow> fst (get_output w) = Inl KeyError"
  "answers w (reads w) = Inr d \<Longrightarrow> d ''ch2'' = Some [] \<Longrightarrow> fst (get_output w) = Inr PyNaN"
  "answers w (reads w) = Inl e \<Longrightarrow> fst (get_output w) = Inl e"
  by (simp_all add: get_output_def get_data_def average_def)

subsection \<open>The spatial sweep\<close>

lemma get_output_ok:
  assumes "answers w (reads w) = Inr d" and "d ''ch2'' = Some xs"
  shows "get_output w = (Inr (average xs), w\<lparr>reads := Suc (reads w), trace := trace w @ [GetData]\<rparr>)"
  using assms by (simp add: get_output_def get_data_def call_def)

lemma radial_loop_ok:
  assumes "motor w"
    and "\<forall>k<length js. \<exists>d xs. answers w (reads w + k) = Inr d \<and> d ''ch2'' = Some xs"
  shows "\<exists>rad' es. radial_loop i js rad w =
           (Inr rad', w\<lparr>reads := reads w + length js, trace := trace w @ es\<rparr>) \<and>
         filter on_bench es = concat (replicate (length js) [RadialGo 700, Sleep 3, GetData])"
  using assms
proof (induction js arbitrary: rad w)
  case Nil
  show ?case by (intro exI [of _ rad] exI [of _ "[]"]) simp
next
  case (Cons j js)
  have "\<exists>d xs. answers w (reads w + 0) = Inr d \<and> d ''ch2'' = Some xs"
    using Cons.prems(2) [rule_format, of 0] by simp
  then obtain d xs where d: "answers w (reads w) = Inr d" "d ''ch2'' = Some xs"
    by auto
  let ?v = "average xs"
  let ?w1 = "call (Sleep 3) (call (RadialGo 700) w)"
  let ?w2 = "w\<lparr>reads := Suc (reads w),
     trace := trace w @ [RadialGo 700, Sleep 3, GetData, PrintPoint (i * 10) ((j + 1) * 700) ?v]\<rparr>"
  have g: "get_output ?w1 =
      (Inr ?v, w\<lparr>reads := Suc (reads w), trace := trace w @ [RadialGo 700, Sleep 3, GetData]\<rparr>)"
    using get_output_ok [of ?w1 d xs] d by (simp add: call_def)
  have step: "radial_loop i (j # js) rad w = radial_loop i js (rad @ [?v]) ?w2"
    using Cons.prems(1)
    apply (simp only: radial_loop.simps motor_call_def if_True prod.case sum.case g)
    apply (simp add: average_not_None call_def)
    done
  have m: "motor ?w2" using Cons.prems(1) by simp
  have a: "\<forall>k<length js. \<exists>d xs. answers ?w2 (reads ?w2 + k) = Inr d \<and> d ''ch2'' = Some xs"
  proof (intro allI impI)
    fix k assume "k < length js"
    then have "Suc k < length (j # js)" by simp
    with Cons.prems(2) obtain d' xs' where
      "answers w (reads w + Suc k) = Inr d'" "d' ''ch2'' = Some xs'" by blast
    then show "\<exists>d xs. answers ?w2 (reads ?w2 + k) = Inr d \<and> d ''ch2'' = Some xs" by simp
  qed
  from Cons.IH [OF m a, of "rad @ [?v]"] obtain rad' es where
    r: "radial_loop i js (rad @ [?v]) ?w2 =
          (Inr rad', ?w2\<lparr>reads := reads ?w2 + length js, trace := trace ?w2 @ es\<rparr>)"
    and b: "filter on_bench es = concat (replicate (length js) [RadialGo 700, Sleep 3, GetData])"
    by blast
  let ?es = "[RadialGo 700, Sleep 3, GetData, PrintPoint (i * 10) ((j + 1) * 700) ?v] @ es"
  have "radial_loop i (j # js) rad w =
      (Inr rad', w\<lparr>reads := reads w + length (j # js), trace := trace w @ ?es\<rparr>)"
    unfolding step r by simp
  moreover have "filter on_bench ?es =
      concat (replicate (length (j # js)) [RadialGo 700, Sleep 3, GetData])"
    using b by simp
  ultimately show ?case by blast
qed

lemma angular_loop_ok:
  assumes "motor w"
    and "\<forall>k<11 * length is. \<exists>d xs. answers w (reads w + k) = Inr d \<and> d ''ch2'' = Some xs"
  shows "\<exists>grid es. angular_loop is acc w =
           (Inr grid, w\<lparr>reads := reads w + 11 * length is, trace := trace w @ es\<rparr>) \<and>
         filter on_bench es = concat (replicate (length is) pass_bench)"
  using assms
proof (induction "is" arbitrary: acc w)
  case Nil
  show ?case by (intro exI [of _ acc] exI [of _ "[]"]) simp
next
  case (Cons i "is")
  have "\<exists>d xs. answers w (reads w + 0) = Inr d \<and> d ''ch2'' = Some xs"
    using Cons.prems(2) [rule_format, of 0] by simp
  then obtain d xs where d: "answers w (reads w) = Inr d" "d ''ch2'' = Some xs"
    by auto
  let ?v = "average xs"
  let ?w1 = "w\<lparr>reads := Suc (reads w), trace := trace w @ [GetData]\<rparr>"
  have g: "get_output w = (Inr ?v, ?w1)" using get_output_ok [OF d] .
  have m1: "motor ?w1" using Cons.prems(1) by simp
  have a1: "\<forall>k<length [0..<10]. \<exists>d xs. answers ?w1 (reads ?w1 + k) = Inr d \<and> d ''ch2'' = Some xs"
  proof (intro allI impI)
    fix k assume "k < length [0..<10]"
    then have "Suc k < 11 * length (i # is)" by simp
    with Cons.prems(2) obtain d' xs' where
      "answers w (reads w + Suc k) = Inr d'" "d' ''ch2'' = Some xs'" by blast
    then show "\<exists>d xs. answers ?w1 (reads ?w1 + k) = Inr d \<and> d ''ch2'' = Some xs" by simp
  qed
  from radial_loop_ok [OF m1 a1, of i "[?v]"] obtain rad es1 where
    r: "radial_loop i [0..<10] [?v] ?w1 =
          (Inr rad, ?w1\<lparr>reads := reads ?w1 + length [0..<10], trace := trace ?w1 @ es1\<rparr>)"
    and b1: "filter on_bench es1 = concat (replicate (length [0..<10]) [RadialGo 700, Sleep 3, GetData])"
    by blast
  let ?tail = "[RadialGo (- 7250), RadialGo 250, AngularGo 40, Sleep 2]"
  let ?w3 = "w\<lparr>reads := 11 + reads w, trace := trace w @ GetData # es1 @ ?tail\<rparr>"
  have step: "angular_loop (i # is) acc w = angular_loop is (acc @ [rad]) ?w3"
    using Cons.prems(1)
    apply (simp only: angular_loop.simps g prod.case sum.case r)
    apply (simp add: motor_call_def call_def)
    done
  have m3: "motor ?w3" using Cons.prems(1) by simp
  have a3: "\<forall>k<11 * length is. \<exists>d xs. answers ?w3 (reads ?w3 + k) = Inr d \<and> d ''ch2'' = Some xs"
  proof (intro allI impI)
    fix k assume "k < 11 * length is"
    then have "11 + k < 11 * length (i # is)" by simp
    with Cons.prems(2) obtain d' xs' where
      "answers w (reads w + (11 + k)) = Inr d'" "d' ''ch2'' = Some xs'" by blast
    moreover have "reads w + (11 + k) = 11 + (reads w + k)" by simp
    ultimately show "\<exists>d xs. answers ?w3 (reads ?w3 + k) = Inr d \<and> d ''ch2'' = Some xs"
      by (simp add: add.assoc)
  qed
  from Cons.IH [OF m3 a3, of "acc @ [rad]"] obtain grid es where
    q: "angular_loop is (acc @ [rad]) ?w3 =
          (Inr grid, ?w3\<lparr>reads := reads ?w3 + 11 * length is, trace := trace ?w3 @ es\<rparr>)"
    and b: "filter on_bench es = concat (replicate (length is) pass_bench)"
    by blast
  let ?es = "(GetData # es1 @ ?tail) @ es"
  have "angular_loop (i # is) acc w =
      (Inr grid, w\<lparr>reads := reads w + 11 * length (i # is), trace := trace w @ ?es\<rparr>)"
    unfolding step q by simp
  moreover have "filter on_bench ?es = concat (replicate (length (i # is)) pass_bench)"
  proof -
    have "filter on_bench ?es = pass_bench @ filter on_bench es"
      using b1 by (simp add: pass_bench_def)
    then show ?thesis by (simp add: b)
  qed
  ultimately show ?case by blast
qed

lemma count_in_repeats:
  "length (filter P (concat (replicate n xs))) = n * length (filter P xs)"
  by (induction n) simp_all

lemma reads_are_on_bench: "[e \<leftarrow> es. e = GetData] = [e \<leftarrow> filter on_bench es. e = GetData]"
proof -
  have "\<And>e. (on_bench e \<and> e = GetData) = (e = GetData)" by auto
  then show ?thesis by simp
qed

lemma spatial_scan_bench:
  "filter on_bench (trace (snd (spatial_scan r theta w))) =
     filter on_bench (trace (snd (angular_loop [0..<18] [] w))) \<and>
   reads (snd (spatial_scan r theta w)) = reads (snd (angular_loop [0..<18] [] w))"
  by (cases "angular_loop [0..<18] [] w" rule: prod.exhaust [case_names Pair])
    (simp add: spatial_scan_def call_def Let_def split: sum.split)

lemma spatial_scan_ok:
  assumes "motor w"
    and "\<forall>k<198. \<exists>d samples. answers w (reads w + k) = Inr d \<and> d ''ch2'' = Some samples"
  shows "filter on_bench (issued w (snd (spatial_scan r theta w))) = concat (replicate 18 pass_bench) \<and>
         reads (snd (spatial_scan r theta w)) = reads w + 198"
proof -
  have a: "\<forall>k<11 * length [0..<18]. \<exists>d xs. answers w (reads w + k) = Inr d \<and> d ''ch2'' = Some xs"
    using assms(2) by simp
  from angular_loop_ok [OF assms(1) a, of "[]"] obtain grid es where
    q: "angular_loop [0..<18] [] w =
          (Inr grid, w\<lparr>reads := reads w + 11 * length [0..<18], trace := trace w @ es\<rparr>)"
    and b: "filter on_bench es = concat (replicate (length [0..<18]) pass_bench)"
    by blast
  show ?thesis
    using b by (simp add: spatial_scan_def q call_def Let_def issued_def)
qed

text \<open>
  What the loops of lines 207 and 212 are written to do. Once the name \<^verbatim>\<open>motor\<close> is
  bound and each of the next 198 answers of the instrument is a record with channel
  2, \<open>spatial_scan\<close> performs on the bench exactly 18 passes, each a baseline read, ten
  radial steps (move by 700, sleep 3, read) and the return (moves by -7250 and 250,
  angular move by 40, sleep 2): 198 reads, whatever \<open>r\<close> and \<open>theta\<close> are. The bench
  events are the same for any other \<open>r'\<close> and \<open>theta'\<close>: the two arguments reach the
  plotting calls only.
\<close>

theorem spatial_scan_reads:
  assumes "motor w"
    and "\<forall>k<198. \<exists>d samples. answers w (reads w + k) = Inr d \<and> d ''ch2'' = Some samples"
  shows "filter on_bench (issued w (snd (spatial_scan r theta w))) =
           concat (replicate 18
             (GetData # concat (replicate 10 [RadialGo 700, Sleep 3, GetData]) @
              [RadialGo (- 7250), RadialGo 250, AngularGo 40, Sleep 2])) \<and>
         length [e \<leftarrow> issued w (snd (spatial_scan r theta w)). e = GetData] = 198 \<and>
         reads (snd (spatial_scan r theta w)) = reads w + 198 \<and>
         filter on_bench (trace (snd (spatial_scan r theta w))) =
           filter on_bench (trace (snd (spatial_scan r' theta' w)))"
proof -
  note ok = spatial_scan_ok [OF assms, of r theta]
  have "length [e \<leftarrow> issued w (snd (spatial_scan r theta w)). e = GetData] =
      length [e \<leftarrow> concat (replicate 18 pass_bench). e = GetData]"
    using ok reads_are_on_bench [of "issued w (snd (spatial_scan r theta w))"] by simp
  also have "\<dots> = 18 * length [e \<leftarrow> pass_bench. e = GetData]"
    by (rule count_in_repeats)
  also have "length [e \<leftarrow> pass_bench. e = GetData] = 11"
    by (simp add: pass_bench_def count_in_repeats)
  finally have c: "length [e \<leftarrow> issued w (snd (spatial_scan r theta w)). e = GetData] = 198"
    by simp
  have i: "filter on_bench (trace (snd (spatial_scan r theta w))) =
           filter on_bench (trace (snd (spatial_scan r' theta' w)))"
    using spatial_scan_bench [of r theta w] spatial_scan_bench [of r' theta' w] by simp
  show ?thesis using ok c i by (simp add: pass_bench_def)
qed

text \<open>
  The steady instrument satisfies both provisos: its motor is bound and every one of
  its answers has channel 2.
\<close>

theorem spatial_scan_reads_witness:
  "motor steady \<and>
   length [e \<leftarrow> issued steady (snd (spatial_scan [] [] steady)). e = GetData] = 198 \<and>
   reads (snd (spatial_scan [] [] steady)) = reads steady + 198"
proof -
  have m: "motor steady" by (simp add: steady_def)
  have a: "\<forall>k<198. \<exists>d samples. answers steady (reads steady + k) = Inr d \<and> d ''ch2'' = Some samples"
    by (simp add: steady_def)
  from spatial_scan_reads [OF m a, of "[]" "[]"] m show ?thesis by blast
qed

text \<open>
  Unlike \<open>scan\<close> (line 170), \<open>spatial_scan\<close> has no \<^verbatim>\<open>try\<close> around its reads (lines 209
  and 215). With a bound motor, on the instrument whose second read fails, the scan
  stops after two reads and raises.
\<close>

theorem spatial_scan_stops_at_failed_read:
  "fst (spatial_scan [1] [2] flaky) = Inl InstrumentError \<and>
   issued flaky (snd (spatial_scan [1] [2] flaky)) = [GetData, RadialGo 700, Sleep 3, GetData] \<and>
   length [e \<leftarrow> issued flaky (snd (spatial_scan [1] [2] flaky)). e = GetData] \<noteq> 198"
  by (simp add: spatial_scan_def flaky_def steady_def upt_conv_Cons get_output_def get_data_def
      call_def motor_call_def average_def issued_def)

text \<open>
  With \<^verbatim>\<open>motor\<close> unbound, whatever the instrument answers: the baseline read of line
  209 is made, and the scan raises there or at the first \<^verbatim>\<open>motor._radial_go\<close> of line
  213. No second read is made.
\<close>

lemma spatial_scan_unbound_motor:
  assumes "\<not> motor w"
  shows "issued w (snd (spatial_scan r theta w)) = [GetData] \<and>
         reads (snd (spatial_scan r theta w)) = reads w + 1 \<and>
         (\<exists>e. fst (spatial_scan r theta w) = Inl e)"
  using assms
  by (simp add: spatial_scan_def upt_conv_Cons get_output_def get_data_def call_def
      motor_call_def issued_def split: sum.split option.split)

text \<open>
  Claim C4. The loops are written for 18 passes of 1 baseline read and 10 radial
  reads, 198 reads. The module as shipped never binds \<^verbatim>\<open>motor\<close> (its only definition
  is the commented-out line 248), so for every \<open>r\<close> and \<open>theta\<close> the scan makes the
  first baseline read, raises NameError at line 213 and returns nothing: one read
  is made, not 198.
\<close>

theorem spatial_scan_as_shipped:
  "fst (spatial_scan r theta as_shipped) = Inl NameError \<and>
   issued as_shipped (snd (spatial_scan r theta as_shipped)) = [GetData] \<and>
   length [e \<leftarrow> issued as_shipped (snd (spatial_scan r theta as_shipped)). e = GetData] = 1 \<and>
   reads (snd (spatial_scan r theta as_shipped)) = reads as_shipped + 1"
  by (simp add: spatial_scan_def as_shipped_def steady_def upt_conv_Cons get_output_def
      get_data_def call_def motor_call_def average_def issued_def)

end
